theory Spec2Isabelle
  imports
    Complex_Main
    "HOL-Library.Char_ord"
    "HOL-Library.List_Lexorder"
    "HOL-Library.Product_Lexorder"
begin

section \<open>Python strings\<close>

text \<open>
  A Python \<^verbatim>\<open>str\<close> is modelled as a \<^typ>\<open>string\<close> whose characters are the code
  points U+0000 to U+00FF (Latin-1), which covers every name of
  \<^verbatim>\<open>processing/coordinates.py\<close>: the name of the team of S\<^verbatim>\<open>a\<close>o Paulo, whose second
  letter is U+00E3, is \<open>''S'' @ [CHR 0xE3] @ ''o Paulo''\<close>. The string methods below are
  Python's, restricted to that range.
\<close>

definition upper_letters :: string where
  "upper_letters = ''ABCDEFGHIJKLMNOPQRSTUVWXYZ'' @
     [CHR 0xC0, CHR 0xC1, CHR 0xC2, CHR 0xC3, CHR 0xC4, CHR 0xC5, CHR 0xC6, CHR 0xC7,
      CHR 0xC8, CHR 0xC9, CHR 0xCA, CHR 0xCB, CHR 0xCC, CHR 0xCD, CHR 0xCE, CHR 0xCF,
      CHR 0xD0, CHR 0xD1, CHR 0xD2, CHR 0xD3, CHR 0xD4, CHR 0xD5, CHR 0xD6,
      CHR 0xD8, CHR 0xD9, CHR 0xDA, CHR 0xDB, CHR 0xDC, CHR 0xDD, CHR 0xDE]"

definition lower_letters :: string where
  "lower_letters = ''abcdefghijklmnopqrstuvwxyz'' @
     [CHR 0xE0, CHR 0xE1, CHR 0xE2, CHR 0xE3, CHR 0xE4, CHR 0xE5, CHR 0xE6, CHR 0xE7,
      CHR 0xE8, CHR 0xE9, CHR 0xEA, CHR 0xEB, CHR 0xEC, CHR 0xED, CHR 0xEE, CHR 0xEF,
      CHR 0xF0, CHR 0xF1, CHR 0xF2, CHR 0xF3, CHR 0xF4, CHR 0xF5, CHR 0xF6,
      CHR 0xF8, CHR 0xF9, CHR 0xFA, CHR 0xFB, CHR 0xFC, CHR 0xFD, CHR 0xFE]"

definition lower_char :: "char \<Rightarrow> char" where
  "lower_char c = (case map_of (zip upper_letters lower_letters) c of None \<Rightarrow> c | Some d \<Rightarrow> d)"

definition lower :: "string \<Rightarrow> string" where
  \<comment> \<open>\<^verbatim>\<open>str.lower()\<close>\<close>
  "lower s = map lower_char s"

definition upper_char :: "char \<Rightarrow> string" where
  \<comment> \<open>U+00DF upper-cases to \<^verbatim>\<open>"SS"\<close>. U+00B5 and U+00FF upper-case to code points
      beyond U+00FF; they are left as they are, which changes no look-up below, since the
      keys of \<^verbatim>\<open>CAPITAL_COORDINATES\<close> are ASCII.\<close>
  "upper_char c =
     (if c = CHR 0xDF then ''SS''
      else case map_of (zip lower_letters upper_letters) c of None \<Rightarrow> [c] | Some d \<Rightarrow> [d])"

definition upper :: "string \<Rightarrow> string" where
  \<comment> \<open>\<^verbatim>\<open>str.upper()\<close>\<close>
  "upper s = concat (map upper_char s)"

definition is_space :: "char \<Rightarrow> bool" where
  \<comment> \<open>the characters \<^verbatim>\<open>str.strip()\<close> removes\<close>
  "is_space c \<longleftrightarrow> c \<in> set [CHR 0x09, CHR 0x0A, CHR 0x0B, CHR 0x0C, CHR 0x0D, CHR 0x1C,
     CHR 0x1D, CHR 0x1E, CHR 0x1F, CHR 0x20, CHR 0x85, CHR 0xA0]"

definition strip :: "string \<Rightarrow> string" where
  \<comment> \<open>\<^verbatim>\<open>str.strip()\<close>\<close>
  "strip s = rev (dropWhile is_space (rev (dropWhile is_space s)))"

function replace :: "string \<Rightarrow> string \<Rightarrow> string \<Rightarrow> string" where
  \<comment> \<open>\<^verbatim>\<open>s.replace(old, new)\<close>: the non-overlapping occurrences of \<open>old\<close>, left to right\<close>
  "replace old new s =
     (if old = [] then new @ concat (map (\<lambda>c. c # new) s)
      else if s = [] then []
      else if take (length old) s = old then new @ replace old new (drop (length old) s)
      else hd s # replace old new (tl s))"
  by pat_completeness auto
termination
  by (relation "measure (\<lambda>(old, new, s). length s)") auto

fun contains :: "string \<Rightarrow> string \<Rightarrow> bool" where
  \<comment> \<open>\<^verbatim>\<open>sub in s\<close> for strings\<close>
  "contains sub [] \<longleftrightarrow> sub = []"
| "contains sub (c # cs) \<longleftrightarrow> take (length sub) (c # cs) = sub \<or> contains sub cs"

definition rsplit1 :: "char \<Rightarrow> string \<Rightarrow> string \<times> string" where
  \<comment> \<open>\<^verbatim>\<open>s.rsplit(sep, 1)\<close> for a string that contains the one-character \<open>sep\<close>: the parts
      before and after its last occurrence\<close>
  "rsplit1 sep s =
     (rev (drop 1 (dropWhile (\<lambda>c. c \<noteq> sep) (rev s))), rev (takeWhile (\<lambda>c. c \<noteq> sep) (rev s)))"

definition isdigit :: "char \<Rightarrow> bool" where
  \<comment> \<open>\<^verbatim>\<open>ch.isdigit()\<close>: the decimal digits and the superscript digits U+00B2, U+00B3
      and U+00B9\<close>
  "isdigit c \<longleftrightarrow> c \<in> set (''0123456789'' @ [CHR 0xB2, CHR 0xB3, CHR 0xB9])"

datatype error = ValueError | KeyError

definition digit_value :: "char \<Rightarrow> int option" where
  "digit_value c = map_of (zip ''0123456789'' [0, 1, 2, 3, 4, 5, 6, 7, 8, 9]) c"

fun int_digits :: "int \<Rightarrow> string \<Rightarrow> error + int" where
  "int_digits acc [] = Inr acc"
| "int_digits acc (c # cs) =
     (case digit_value c of
        None \<Rightarrow> Inl ValueError
      | Some d \<Rightarrow> int_digits (10 * acc + d) cs)"

definition py_int :: "string \<Rightarrow> error + int" where
  \<comment> \<open>\<^verbatim>\<open>int(s)\<close> on a non-empty string of \<^verbatim>\<open>isdigit\<close> characters: a superscript digit
      is no decimal digit, and \<^verbatim>\<open>int\<close> raises \<^verbatim>\<open>ValueError\<close> on it\<close>
  "py_int s = (if s = [] then Inl ValueError else int_digits 0 s)"

definition round_half_even :: "real \<Rightarrow> int" where
  "round_half_even y =
     (let f = \<lfloor>y\<rfloor> in
      if y - of_int f < 1 / 2 then f
      else if 1 / 2 < y - of_int f then f + 1
      else if even f then f else f + 1)"

definition py_round :: "real \<Rightarrow> nat \<Rightarrow> real" where
  \<comment> \<open>\<^verbatim>\<open>round(x, n)\<close>, on real numbers: to the nearest multiple of \<open>10\<^sup>-\<^sup>n\<close>, a tie to the
      even one\<close>
  "py_round x n = of_int (round_half_even (x * 10 ^ n)) / 10 ^ n"

section \<open>The data model\<close>

datatype round_token = RoundInt int | RoundStr string

record match =
  id_partida :: int
  data :: int
  rodada :: "round_token option"
  time_casa :: string
  time_fora :: string
  gols_casa :: "int option"
  gols_fora :: "int option"
  xG_casa :: "real option"
  xG_fora :: "real option"
  cidade_jogo :: "string option"

text \<open>
  The column \<^verbatim>\<open>data\<close> holds a \<^verbatim>\<open>pd.Timestamp\<close>, a number of seconds here; the
  attribute \<^verbatim>\<open>.days\<close> of a difference of two timestamps is the number of whole days in
  it, rounded down.
\<close>

definition days :: "int \<Rightarrow> int" where
  "days td = td div 86400"

record team_info =
  nome_time :: string
  latitude :: real
  longitude :: real

record standing =
  s_rodada :: int
  s_time :: string
  s_posicao :: int
  s_pontos :: real

record player_stat =
  p_id_partida :: int
  p_id_jogador :: int
  p_time :: string
  p_gols :: int
  p_assistencias :: int

section \<open>processing/coordinates.py\<close>

definition TEAM_COORDINATES :: "(string \<times> real \<times> real) list" where
  "TEAM_COORDINATES =
    [(''Flamengo'', -22.9068, -43.1729),
     (''Fluminense'', -22.9068, -43.1729),
     (''Botafogo'', -22.9068, -43.1729),
     (''Vasco'', -22.9068, -43.1729),
     (''Palmeiras'', -23.5505, -46.6333),
     (''Corinthians'', -23.5505, -46.6333),
     (''S'' @ [CHR 0xE3] @ ''o Paulo'', -23.5505, -46.6333),
     (''Santos'', -23.9608, -46.3339),
     (''Red Bull Bragantino'', -22.9519, -46.5419),
     (''Gr'' @ [CHR 0xEA] @ ''mio'', -30.0346, -51.2177),
     (''Internacional'', -30.0346, -51.2177),
     (''Atl'' @ [CHR 0xE9] @ ''tico-MG'', -19.9167, -43.9345),
     (''Cruzeiro'', -19.9167, -43.9345),
     (''Am'' @ [CHR 0xE9] @ ''rica-MG'', -19.9167, -43.9345),
     (''Athletico-PR'', -25.4290, -49.2671),
     (''Coritiba'', -25.4290, -49.2671),
     (''Bahia'', -12.9714, -38.5014),
     (''Vit'' @ [CHR 0xF3] @ ''ria'', -12.9714, -38.5014),
     (''Fortaleza'', -3.7172, -38.5433),
     (''Cear'' @ [CHR 0xE1], -3.7172, -38.5433),
     (''Cuiab'' @ [CHR 0xE1], -15.6014, -56.0978),
     (''Goi'' @ [CHR 0xE1] @ ''s'', -16.6869, -49.2648),
     (''Atl'' @ [CHR 0xE9] @ ''tico-GO'', -16.6869, -49.2648),
     (''Sport'', -8.0578, -34.8778),
     (''Juventude'', -29.1678, -51.1794),
     (''Crici'' @ [CHR 0xFA] @ ''ma'', -28.6775, -49.3703),
     (''Ava'' @ [CHR 0xED], -27.5954, -48.5480),
     (''Chapecoense'', -27.1004, -52.6152)]"

definition CAPITAL_COORDINATES :: "(string \<times> real \<times> real) list" where
  "CAPITAL_COORDINATES =
    [(''AC'', -9.97499, -67.8076),
     (''AL'', -9.66599, -35.735),
     (''AP'', 0.034934, -51.0694),
     (''AM'', -3.11866, -60.0212),
     (''BA'', -12.9711, -38.5108),
     (''CE'', -3.71722, -38.5431),
     (''DF'', -15.7797, -47.9297),
     (''ES'', -20.3155, -40.3128),
     (''GO'', -16.6869, -49.2648),
     (''MA'', -2.52972, -44.3028),
     (''MT'', -15.601, -56.0974),
     (''MS'', -20.4428, -54.6464),
     (''MG'', -19.9209, -43.9378),
     (''PA'', -1.45502, -48.5024),
     (''PB'', -7.11532, -34.861),
     (''PR'', -25.4284, -49.2733),
     (''PE'', -8.05428, -34.8813),
     (''PI'', -5.08921, -42.8016),
     (''RJ'', -22.9068, -43.1729),
     (''RN'', -5.795, -35.2094),
     (''RS'', -30.0331, -51.23),
     (''RO'', -8.76116, -63.9039),
     (''RR'', 2.81954, -60.6733),
     (''SC'', -27.5945, -48.5477),
     (''SP'', -23.5505, -46.6333),
     (''SE'', -10.9111, -37.0717),
     (''TO'', -10.1844, -48.3336)]"

section \<open>processing/features.py: coordinates and travel distance\<close>

definition normalize_team_name :: "string \<Rightarrow> string" where
  "normalize_team_name name =
     lower (strip (replace ''F.C.'' '''' (replace ''FC'' '''' (replace ''.'' ''''
       (replace ''-'' '' '' name)))))"

definition radians :: "real \<Rightarrow> real" where
  "radians x = x * pi / 180"

definition haversine_distance_km :: "real \<Rightarrow> real \<Rightarrow> real \<Rightarrow> real \<Rightarrow> real" where
  \<comment> \<open>the formula on real numbers; the source evaluates it in floating point\<close>
  "haversine_distance_km lat1 lon1 lat2 lon2 =
     (let r = 6371;
          d_lat = radians (lat2 - lat1);
          d_lon = radians (lon2 - lon1);
          lat1_rad = radians lat1;
          lat2_rad = radians lat2;
          a = (sin (d_lat / 2)) ^ 2 + cos lat1_rad * cos lat2_rad * (sin (d_lon / 2)) ^ 2;
          c = 2 * arcsin (sqrt a)
      in py_round (r * c) 2)"

definition override_rows :: "string \<Rightarrow> team_info list option \<Rightarrow> team_info list" where
  \<comment> \<open>line 41: the rows of the caller's table whose lower-cased name is the lower-cased
      team; none when there is no table\<close>
  "override_rows team teams_info =
     (case teams_info of
        None \<Rightarrow> []
      | Some rows \<Rightarrow> filter (\<lambda>r. lower (nome_time r) = lower team) rows)"

definition resolve_team_coords :: "string \<Rightarrow> team_info list option \<Rightarrow> (real \<times> real) option" where
  \<comment> \<open>\<^verbatim>\<open>_resolve_team_coords\<close>\<close>
  "resolve_team_coords team teams_info =
     (case override_rows team teams_info of
        r # _ \<Rightarrow> Some (latitude r, longitude r)
      | [] \<Rightarrow> map_of TEAM_COORDINATES team)"

definition resolve_city_coords :: "string \<Rightarrow> string option \<Rightarrow> (real \<times> real) option" where
  \<comment> \<open>\<^verbatim>\<open>_resolve_city_coords\<close>; the first argument is not used by the source either\<close>
  "resolve_city_coords city capital_hint =
     (case capital_hint of
        None \<Rightarrow> None
      | Some h \<Rightarrow> if h = [] then None else map_of CAPITAL_COORDINATES (upper h))"

definition city_hints ::
  "match \<Rightarrow> (string \<rightharpoonup> string) option \<Rightarrow> string \<times> string option \<times> string option" where
  \<comment> \<open>lines 79 to 86: the city field, the city hint and the state hint of a row\<close>
  "city_hints row city_state_map =
     (let city_field = (case cidade_jogo row of None \<Rightarrow> [] | Some c \<Rightarrow> c) in
      if CHR ''-'' \<in> set city_field then
        (let parts = rsplit1 CHR ''-'' city_field
         in (city_field, Some (strip (fst parts)), Some (strip (snd parts))))
      else
        (case city_state_map of
           None \<Rightarrow> (city_field, None, None)
         | Some m \<Rightarrow> (city_field, None, m city_field)))"

definition row_city_hint :: "match \<Rightarrow> (string \<rightharpoonup> string) option \<Rightarrow> string option" where
  "row_city_hint row city_state_map = fst (snd (city_hints row city_state_map))"

definition match_city_coords :: "match \<Rightarrow> (string \<rightharpoonup> string) option \<Rightarrow> (real \<times> real) option" where
  \<comment> \<open>line 88; \<^verbatim>\<open>city_hint or city_field\<close> takes the field when the hint is absent or
      empty\<close>
  "match_city_coords row city_state_map =
     (case city_hints row city_state_map of
        (city_field, city_hint, state_hint) \<Rightarrow>
          resolve_city_coords
            (case city_hint of None \<Rightarrow> city_field | Some h \<Rightarrow> if h = [] then city_field else h)
            state_hint)"

definition home_city :: "string \<Rightarrow> string option \<Rightarrow> bool" where
  \<comment> \<open>line 95: \<^verbatim>\<open>city_hint and normalize_team_name(team) in normalize_team_name(city_hint)\<close>\<close>
  "home_city team city_hint =
     (case city_hint of
        None \<Rightarrow> False
      | Some h \<Rightarrow> h \<noteq> [] \<and> contains (normalize_team_name team) (normalize_team_name h))"

definition travel_km ::
  "team_info list option \<Rightarrow> (string \<rightharpoonup> string) option \<Rightarrow> match \<Rightarrow> string \<Rightarrow> real option" where
  \<comment> \<open>lines 91 to 100, for one row and one side\<close>
  "travel_km teams_info city_state_map row team =
     (let base_coords = resolve_team_coords team teams_info;
          match_coords = match_city_coords row city_state_map
      in case (base_coords, match_coords) of
           (Some b, Some c) \<Rightarrow>
             if home_city team (row_city_hint row city_state_map) then Some 0
             else Some (haversine_distance_km (fst b) (snd b) (fst c) (snd c))
         | _ \<Rightarrow> None)"


section \<open>processing/features.py: importance score\<close>

record importance_params =
  high_round_threshold :: int
  g4_cutoff :: int
  z4_cutoff :: int

definition default_importance_params :: importance_params where
  "default_importance_params = \<lparr>high_round_threshold = 28, g4_cutoff = 4, z4_cutoff = 17\<rparr>"

definition parse_round :: "round_token \<Rightarrow> error + int option" where
  \<comment> \<open>lines 299 to 301\<close>
  "parse_round tok =
     (case tok of
        RoundInt n \<Rightarrow> Inr (Some n)
      | RoundStr s \<Rightarrow>
          (let digits = filter isdigit s in
           if digits = [] then Inr None
           else case py_int digits of Inl e \<Rightarrow> Inl e | Inr n \<Rightarrow> Inr (Some n)))"

definition stage_factor :: "importance_params \<Rightarrow> int \<Rightarrow> real" where
  "stage_factor params r = (if high_round_threshold params \<le> r then 1 else 1 / 2)"

definition team_score ::
  "importance_params \<Rightarrow> standing list \<Rightarrow> string \<Rightarrow> round_token option \<Rightarrow> error + real option" where
  "team_score params standings_df team rodada_field =
     (case rodada_field of
        None \<Rightarrow> Inr None
      | Some tok \<Rightarrow>
          (case parse_round tok of
             Inl e \<Rightarrow> Inl e
           | Inr None \<Rightarrow> Inr None
           | Inr (Some r) \<Rightarrow>
               (let table = filter (\<lambda>s. s_rodada s = r) standings_df in
                if table = [] then Inr None
                else case filter (\<lambda>s. lower (s_time s) = lower team) table of
                  [] \<Rightarrow> Inr None
                | team_row # _ \<Rightarrow>
                    (let pontos = s_pontos team_row;
                         g4_row = filter (\<lambda>s. s_posicao s = g4_cutoff params) table;
                         z4_row = filter (\<lambda>s. s_posicao s = z4_cutoff params) table
                     in if g4_row = [] \<or> z4_row = [] then Inr None
                        else
                          (let gap_g4 = s_pontos (hd g4_row) - pontos;
                               gap_z4 = pontos - s_pontos (hd z4_row);
                               tension = 1 / (1 + max gap_g4 0 + max gap_z4 0)
                           in Inr (Some (py_round (tension * stage_factor params r) 3)))))))"

fun collect :: "(error + 'a) list \<Rightarrow> error + 'a list" where
  \<comment> \<open>the values of a column, or the first error raised while it is computed\<close>
  "collect [] = Inr []"
| "collect (x # xs) =
     (case x of
        Inl e \<Rightarrow> Inl e
      | Inr v \<Rightarrow> (case collect xs of Inl e \<Rightarrow> Inl e | Inr vs \<Rightarrow> Inr (v # vs)))"

definition compute_importance_score ::
  "match list \<Rightarrow> standing list option \<Rightarrow> importance_params \<Rightarrow>
     error + (match \<times> real option \<times> real option) list" where
  \<comment> \<open>a row of the result is the row of the input with \<^verbatim>\<open>importance_home\<close> and
      \<^verbatim>\<open>importance_away\<close>\<close>
  "compute_importance_score matches_df standings_df params =
     (case standings_df of
        None \<Rightarrow> Inr (map (\<lambda>row. (row, None, None)) matches_df)
      | Some st \<Rightarrow>
          if st = [] then Inr (map (\<lambda>row. (row, None, None)) matches_df)
          else
            (case collect (map (\<lambda>row. team_score params st (time_casa row) (rodada row)) matches_df) of
               Inl e \<Rightarrow> Inl e
             | Inr homes \<Rightarrow>
                 (case collect (map (\<lambda>row. team_score params st (time_fora row) (rodada row)) matches_df) of
                    Inl e \<Rightarrow> Inl e
                  | Inr aways \<Rightarrow> Inr (zip matches_df (zip homes aways)))))"


text \<open>
  What the standings say about a team in a round: the points of the first row of the
  round's table with the team's name, the points of the first row at a rank, and the sum
  of the two clamped gaps.
\<close>

definition round_points :: "standing list \<Rightarrow> int \<Rightarrow> string \<Rightarrow> real option" where
  "round_points st r team =
     (case filter (\<lambda>s. lower (s_time s) = lower team) (filter (\<lambda>s. s_rodada s = r) st) of
        [] \<Rightarrow> None
      | x # _ \<Rightarrow> Some (s_pontos x))"

definition rank_points :: "standing list \<Rightarrow> int \<Rightarrow> int \<Rightarrow> real option" where
  "rank_points st r pos =
     (case filter (\<lambda>s. s_posicao s = pos) (filter (\<lambda>s. s_rodada s = r) st) of
        [] \<Rightarrow> None
      | x # _ \<Rightarrow> Some (s_pontos x))"


section \<open>processing/features.py: rest days\<close>

text \<open>
  \<^verbatim>\<open>sort_values("data")\<close> is modelled as a stable sort: rows of equal date keep the
  order of the input.
\<close>

definition rest :: "(string \<rightharpoonup> int) \<Rightarrow> string \<Rightarrow> int \<Rightarrow> int option" where
  \<comment> \<open>\<^verbatim>\<open>(match_date - last_played[team]).days if team in last_played else None\<close>\<close>
  "rest last_played team match_date =
     (case last_played team of
        None \<Rightarrow> None
      | Some d \<Rightarrow> Some (days (match_date - d)))"

fun rest_days_loop ::
  "(string \<rightharpoonup> int) \<Rightarrow> match list \<Rightarrow> (match \<times> int option \<times> int option) list" where
  \<comment> \<open>lines 115 to 128\<close>
  "rest_days_loop last_played [] = []"
| "rest_days_loop last_played (row # rows) =
     (let match_date = data row; home = time_casa row; away = time_fora row
      in (row, rest last_played home match_date, rest last_played away match_date)
           # rest_days_loop (last_played(home \<mapsto> match_date, away \<mapsto> match_date)) rows)"


definition plays :: "string \<Rightarrow> match \<Rightarrow> bool" where
  \<comment> \<open>the team is the home or the away team of the row\<close>
  "plays team row \<longleftrightarrow> time_casa row = team \<or> time_fora row = team"


section \<open>processing/features.py: rolling statistics\<close>

record long_row =
  l_id_partida :: int
  l_team :: string
  l_goals_for :: "real option"
  l_goals_against :: "real option"
  l_xg_for :: "real option"
  l_xg_against :: "real option"
  l_data :: int
  l_side :: string

record rolled_row = long_row +
  goals_for_roll :: "real option"
  goals_against_roll :: "real option"
  xg_for_roll :: "real option"
  xg_against_roll :: "real option"

type_synonym column = "string \<times> real option"

definition shift1 :: "'a option list \<Rightarrow> 'a option list" where
  \<comment> \<open>\<^verbatim>\<open>series.shift(1)\<close>\<close>
  "shift1 series = (if series = [] then [] else None # butlast series)"

definition window_mean :: "real option list \<Rightarrow> real option" where
  \<comment> \<open>the mean of the values of a window that are not null; null when there is none
      (\<^verbatim>\<open>min_periods=1\<close>)\<close>
  "window_mean w =
     (let vs = concat (map (\<lambda>v. case v of None \<Rightarrow> [] | Some x \<Rightarrow> [x]) w)
      in if vs = [] then None else Some (sum_list vs / of_nat (length vs)))"

definition rolling_mean :: "nat \<Rightarrow> real option list \<Rightarrow> real option list" where
  \<comment> \<open>\<^verbatim>\<open>series.rolling(window=window, min_periods=1).mean()\<close>, for \<open>1 \<le> window\<close>\<close>
  "rolling_mean window series =
     map (\<lambda>i. window_mean (drop (Suc i - window) (take (Suc i) series))) [0..<length series]"

definition rolling_mean_shifted :: "real option list \<Rightarrow> nat \<Rightarrow> real option list" where
  \<comment> \<open>\<^verbatim>\<open>_rolling_mean_shifted\<close>\<close>
  "rolling_mean_shifted series window = rolling_mean window (shift1 series)"

definition group_transform ::
  "('r \<Rightarrow> 'k) \<Rightarrow> ('r \<Rightarrow> 'v) \<Rightarrow> ('v list \<Rightarrow> 'w list) \<Rightarrow> 'r list \<Rightarrow> 'w list" where
  \<comment> \<open>\<^verbatim>\<open>df.groupby(key)[col].transform(f)\<close>: \<open>f\<close> maps the column of each group, in the
      order of the table, and every row receives the value at its place in its group\<close>
  "group_transform key col f rows =
     map (\<lambda>i. f (map col (filter (\<lambda>r. key r = key (rows ! i)) rows))
                ! length (filter (\<lambda>r. key r = key (rows ! i)) (take i rows)))
       [0..<length rows]"

definition home_obs :: "match \<Rightarrow> long_row" where
  \<comment> \<open>lines 148 to 157\<close>
  "home_obs row =
     \<lparr>l_id_partida = id_partida row, l_team = time_casa row,
      l_goals_for = map_option of_int (gols_casa row),
      l_goals_against = map_option of_int (gols_fora row),
      l_xg_for = xG_casa row, l_xg_against = xG_fora row,
      l_data = data row, l_side = ''home''\<rparr>"

definition away_obs :: "match \<Rightarrow> long_row" where
  \<comment> \<open>lines 160 to 169\<close>
  "away_obs row =
     \<lparr>l_id_partida = id_partida row, l_team = time_fora row,
      l_goals_for = map_option of_int (gols_fora row),
      l_goals_against = map_option of_int (gols_casa row),
      l_xg_for = xG_fora row, l_xg_against = xG_casa row,
      l_data = data row, l_side = ''away''\<rparr>"

definition long_rows :: "match list \<Rightarrow> long_row list" where
  \<comment> \<open>lines 145 to 170\<close>
  "long_rows df = concat (map (\<lambda>row. [home_obs row, away_obs row]) df)"

definition add_rolls :: "nat \<Rightarrow> long_row list \<Rightarrow> rolled_row list" where
  \<comment> \<open>lines 174 to 177\<close>
  "add_rolls window long_df =
     map (\<lambda>(r, gf, ga, xf, xa).
            long_row.extend r
              \<lparr>goals_for_roll = gf, goals_against_roll = ga, xg_for_roll = xf,
               xg_against_roll = xa\<rparr>)
       (zip long_df
         (zip (group_transform l_team l_goals_for (\<lambda>s. rolling_mean_shifted s window) long_df)
           (zip (group_transform l_team l_goals_against (\<lambda>s. rolling_mean_shifted s window) long_df)
             (zip (group_transform l_team l_xg_for (\<lambda>s. rolling_mean_shifted s window) long_df)
               (group_transform l_team l_xg_against (\<lambda>s. rolling_mean_shifted s window) long_df)))))"

definition digit_char :: "nat \<Rightarrow> char" where
  "digit_char n = ''0123456789'' ! n"

function str_nat :: "nat \<Rightarrow> string" where
  "str_nat n = (if n < 10 then [digit_char n] else str_nat (n div 10) @ [digit_char (n mod 10)])"
  by pat_completeness auto
termination
  by (relation "measure id") auto

declare str_nat.simps [simp del]

definition stat_names :: "nat \<Rightarrow> string \<Rightarrow> string list" where
  \<comment> \<open>the four columns \<^verbatim>\<open>..._roll\<close> after \<^verbatim>\<open>add_suffix(f"_last{window}_{side}")\<close>\<close>
  "stat_names window side =
     map (\<lambda>c. c @ ''_last'' @ str_nat window @ ''_'' @ side)
       [''goals_for_roll'', ''goals_against_roll'', ''xg_for_roll'', ''xg_against_roll'']"

definition side_stats :: "nat \<Rightarrow> string \<Rightarrow> rolled_row list \<Rightarrow> (int \<times> column list) list" where
  \<comment> \<open>lines 179 to 192: the rows of one side, keyed by \<^verbatim>\<open>id_partida\<close>\<close>
  "side_stats window side long_df =
     map (\<lambda>r. (l_id_partida r,
                zip (stat_names window side)
                  [goals_for_roll r, goals_against_roll r, xg_for_roll r, xg_against_roll r]))
       (filter (\<lambda>r. l_side r = side) long_df)"

definition join ::
  "(match \<times> column list) list \<Rightarrow> string list \<Rightarrow> (int \<times> column list) list \<Rightarrow>
     (match \<times> column list) list" where
  \<comment> \<open>\<^verbatim>\<open>left.join(right)\<close> on the index \<^verbatim>\<open>id_partida\<close>: a left join, in the order of the
      left table; a row without a partner receives nulls\<close>
  "join left names right =
     concat (map (\<lambda>(row, cols).
       case filter (\<lambda>(k, _). k = id_partida row) right of
         [] \<Rightarrow> [(row, cols @ map (\<lambda>n. (n, None)) names)]
       | rs \<Rightarrow> map (\<lambda>(_, new). (row, cols @ new)) rs) left)"

definition compute_rolling_stats ::
  "match list \<Rightarrow> int \<Rightarrow> error + (match \<times> column list) list" where
  \<comment> \<open>A row of the result is a row of the input with the named columns that were added.
      On an empty table \<^verbatim>\<open>pd.DataFrame(long_rows)\<close> has no column, and
      \<^verbatim>\<open>sort_values(["team", "data"])\<close> raises \<^verbatim>\<open>KeyError\<close>; \<^verbatim>\<open>rolling\<close> raises
      \<^verbatim>\<open>ValueError\<close> on a window below \<^verbatim>\<open>min_periods=1\<close>.\<close>
  "compute_rolling_stats matches_df window =
     (if matches_df = [] then Inl KeyError
      else if window < 1 then Inl ValueError
      else
        (let long_df = add_rolls (nat window)
               (sort_key (\<lambda>r. (l_team r, l_data r)) (long_rows matches_df));
             home_stats = side_stats (nat window) ''home'' long_df;
             away_stats = side_stats (nat window) ''away'' long_df
         in Inr (join (join (map (\<lambda>row. (row, [])) matches_df)
                   (stat_names (nat window) ''home'') home_stats)
                   (stat_names (nat window) ''away'') away_stats)))"

text \<open>
  The observations of a team in chronological order, observations of equal date in the
  order of the table; the observations of its team before an observation; and the mean
  of a metric over the last \<open>window\<close> of those.
\<close>

definition team_obs :: "match list \<Rightarrow> string \<Rightarrow> long_row list" where
  "team_obs df team = sort_key l_data (filter (\<lambda>x. l_team x = team) (long_rows df))"

definition earlier_obs :: "match list \<Rightarrow> long_row \<Rightarrow> long_row list" where
  "earlier_obs df obs = takeWhile (\<lambda>x. x \<noteq> obs) (team_obs df (l_team obs))"

definition trailing_mean ::
  "nat \<Rightarrow> match list \<Rightarrow> (long_row \<Rightarrow> real option) \<Rightarrow> long_row \<Rightarrow> real option" where
  "trailing_mean window df col obs =
     window_mean (map col (drop (length (earlier_obs df obs) - window) (earlier_obs df obs)))"

section \<open>processing/features.py: key players\<close>

record key_player =
  kp_id_jogador :: int
  kp_gols :: int
  kp_assistencias :: int
  kp_score :: int

definition py_last :: "int \<Rightarrow> 'a list \<Rightarrow> 'a list" where
  \<comment> \<open>the slice \<^verbatim>\<open>xs[-n:]\<close>\<close>
  "py_last n xs = (if 0 < n then drop (length xs - nat n) xs else drop (nat (- n)) xs)"

definition py_head :: "int \<Rightarrow> 'a list \<Rightarrow> 'a list" where
  \<comment> \<open>\<^verbatim>\<open>DataFrame.head(n)\<close>: a negative \<open>n\<close> leaves out the last \<open>- n\<close> rows\<close>
  "py_head n xs = (if 0 \<le> n then take (nat n) xs else take (length xs - nat (- n)) xs)"

definition match_date_map :: "match list \<Rightarrow> (int \<rightharpoonup> int)" where
  \<comment> \<open>line 218; the last row of an id gives its date\<close>
  "match_date_map df = map_of (rev (map (\<lambda>row. (id_partida row, data row)) df))"

definition append_id :: "(string \<Rightarrow> int list) \<Rightarrow> string \<Rightarrow> int \<Rightarrow> (string \<Rightarrow> int list)" where
  \<comment> \<open>\<^verbatim>\<open>team_matches[team].append(mid)\<close> on a \<^verbatim>\<open>defaultdict(list)\<close>\<close>
  "append_id tm team mid = tm(team := tm team @ [mid])"

definition team_matches :: "match list \<Rightarrow> string \<Rightarrow> int list" where
  \<comment> \<open>lines 219 to 223\<close>
  "team_matches df =
     foldl (\<lambda>tm row. append_id (append_id tm (time_casa row) (id_partida row))
                        (time_fora row) (id_partida row))
       (\<lambda>_. []) (sort_key data df)"

definition dated_before :: "int option \<Rightarrow> int option \<Rightarrow> bool" where
  \<comment> \<open>\<^verbatim>\<open>match_date_map[mid] < match_date\<close>; both ids are keys of the map wherever the
      source compares\<close>
  "dated_before d match_date =
     (case (d, match_date) of (Some x, Some y) \<Rightarrow> x < y | _ \<Rightarrow> False)"

definition group_players :: "player_stat list \<Rightarrow> key_player list" where
  \<comment> \<open>lines 247 to 252: one row for each player, in the order of the player ids, with
      the sums and the score\<close>
  "group_players recent =
     map (\<lambda>pid.
            (let rows = filter (\<lambda>p. p_id_jogador p = pid) recent;
                 gols = sum_list (map p_gols rows);
                 assistencias = sum_list (map p_assistencias rows)
             in \<lparr>kp_id_jogador = pid, kp_gols = gols, kp_assistencias = assistencias,
                  kp_score = gols + assistencias\<rparr>))
       (sort (remdups (map p_id_jogador recent)))"

definition key_players_of ::
  "match list \<Rightarrow> player_stat list \<Rightarrow> int \<Rightarrow> int \<Rightarrow> match \<Rightarrow> string \<Rightarrow> key_player list" where
  \<comment> \<open>lines 234 to 264, for one row and one side; \<^verbatim>\<open>sort_values\<close> on two columns is
      stable\<close>
  "key_players_of df player_stats_df window top_n row team =
     (let match_date = match_date_map df (id_partida row);
          history_ids = filter (\<lambda>mid. dated_before (match_date_map df mid) match_date)
                          (team_matches df team);
          recent_ids = py_last window history_ids;
          recent = filter (\<lambda>p. p_time p = team \<and> p_id_partida p \<in> set recent_ids)
                     player_stats_df
      in if recent = [] then []
         else py_head top_n
                (sort_key (\<lambda>g. (- kp_score g, - kp_gols g)) (group_players recent)))"

definition compute_key_players ::
  "match list \<Rightarrow> player_stat list \<Rightarrow> int \<Rightarrow> int \<Rightarrow>
     (match \<times> key_player list option \<times> key_player list option) list" where
  \<comment> \<open>a row of the result is the row of the input with \<^verbatim>\<open>key_players_home\<close> and
      \<^verbatim>\<open>key_players_away\<close>, read from the dictionaries \<^verbatim>\<open>key_home\<close> and
      \<^verbatim>\<open>key_away\<close> by \<^verbatim>\<open>id_partida\<close>\<close>
  "compute_key_players matches_df player_stats_df window top_n =
     (let key_home = map_of (rev (map (\<lambda>row. (id_partida row,
            key_players_of matches_df player_stats_df window top_n row (time_casa row)))
              matches_df));
          key_away = map_of (rev (map (\<lambda>row. (id_partida row,
            key_players_of matches_df player_stats_df window top_n row (time_fora row)))
              matches_df))
      in map (\<lambda>row. (row, key_home (id_partida row), key_away (id_partida row))) matches_df)"

text \<open>
  The matches of a team before a row, in chronological order; the most recent \<open>window\<close>
  of them; and the rows of the player statistics of the team in those.
\<close>

definition prior_matches :: "match list \<Rightarrow> string \<Rightarrow> match \<Rightarrow> match list" where
  "prior_matches df team row =
     filter (\<lambda>m. plays team m \<and> data m < data row) (sort_key data df)"

definition recent_matches :: "nat \<Rightarrow> match list \<Rightarrow> string \<Rightarrow> match \<Rightarrow> match list" where
  "recent_matches window df team row =
     drop (length (prior_matches df team row) - window) (prior_matches df team row)"

definition recent_stats ::
  "nat \<Rightarrow> match list \<Rightarrow> player_stat list \<Rightarrow> string \<Rightarrow> match \<Rightarrow> player_stat list" where
  "recent_stats window df player_stats_df team row =
     filter (\<lambda>p. p_time p = team \<and>
                 p_id_partida p \<in> id_partida ` set (recent_matches window df team row))
       player_stats_df"

section \<open>Properties of the importance score\<close>












section \<open>Missing auxiliary data\<close>

text \<open>
  Claim C8. The round token \<^verbatim>\<open>"Rodada "\<close> followed by the superscript two, U+00B2, has
  no integer in it. \<^verbatim>\<open>isdigit\<close> keeps the superscript, \<^verbatim>\<open>int\<close> raises
  \<^verbatim>\<open>ValueError\<close> on it, and the stage returns no table.
\<close>

theorem importance_digit_round_raises:
  "compute_importance_score
     [\<lparr>id_partida = 1, data = 0, rodada = Some (RoundStr (''Rodada '' @ [CHR 0xB2])),
       time_casa = ''Flamengo'', time_fora = ''Santos'', gols_casa = None, gols_fora = None,
       xG_casa = None, xG_fora = None, cidade_jogo = None\<rparr>]
     (Some [\<lparr>s_rodada = 2, s_time = ''Flamengo'', s_posicao = 1, s_pontos = 3\<rparr>])
     default_importance_params = Inl ValueError"
  by (simp add: compute_importance_score_def team_score_def parse_round_def isdigit_def
      py_int_def digit_value_def)

text \<open>
  The other cases of missing data give null: no round, a round token without a digit
  character, a round or a team or a cut-off rank that the standings do not have, no
  standings, and a coordinate that does not resolve.
\<close>

lemma collect_map_Inr: "collect (map (\<lambda>x. Inr (f x)) xs) = Inr (map f xs)"
  by (induction xs) simp_all

lemma team_score_null:
  "team_score params st team None = Inr None"
  "parse_round tok = Inr None \<Longrightarrow> team_score params st team (Some tok) = Inr None"
  "parse_round tok = Inr (Some r) \<Longrightarrow> filter (\<lambda>s. s_rodada s = r) st = [] \<Longrightarrow>
     team_score params st team (Some tok) = Inr None"
  "parse_round tok = Inr (Some r) \<Longrightarrow> round_points st r team = None \<Longrightarrow>
     team_score params st team (Some tok) = Inr None"
  "parse_round tok = Inr (Some r) \<Longrightarrow>
     rank_points st r (g4_cutoff params) = None \<or> rank_points st r (z4_cutoff params) = None \<Longrightarrow>
     team_score params st team (Some tok) = Inr None"
  by (auto simp: team_score_def round_points_def rank_points_def Let_def split: list.splits)

lemma parse_round_no_digit:
  "\<forall>c \<in> set s. \<not> isdigit c \<Longrightarrow> parse_round (RoundStr s) = Inr None"
  by (simp add: parse_round_def filter_empty_conv)

lemma importance_no_standings:
  "st = None \<or> st = Some [] \<Longrightarrow>
     compute_importance_score ms st params = Inr (map (\<lambda>row. (row, None, None)) ms)"
  by (auto simp: compute_importance_score_def)

lemma travel_km_unresolved:
  "resolve_team_coords team ti = None \<or> match_city_coords row csm = None \<Longrightarrow>
     travel_km ti csm row team = None"
  by (auto simp: travel_km_def split: option.splits)

section \<open>Properties of the coordinates and of the travel distance\<close>

text \<open>
  Claim C4 fails as stated. The built-in table is read with the name as it is given:
  \<^verbatim>\<open>"flamengo"\<close> and \<^verbatim>\<open>"Flamengo"\<close> have the same lower-cased name, the first
  resolves to null and the second to Rio de Janeiro. \<^const>\<open>normalize_team_name\<close>, which
  \<^const>\<open>resolve_team_coords\<close> does not call, keeps the accents.
\<close>

theorem resolve_team_case_counterexample:
  "lower ''flamengo'' = lower ''Flamengo'' \<and>
   resolve_team_coords ''flamengo'' None = None \<and>
   resolve_team_coords ''Flamengo'' None = Some (-22.9068, -43.1729) \<and>
   normalize_team_name (''Gremio'') \<noteq> normalize_team_name (''Gr'' @ [CHR 0xEA] @ ''mio'')"
  by (simp add: resolve_team_coords_def override_rows_def TEAM_COORDINATES_def lower_def
      lower_char_def upper_letters_def lower_letters_def normalize_team_name_def strip_def
      is_space_def)

text \<open>
  Claim C4, amended. When a row of the caller's table has the lower-cased name of the
  team, the first such row gives the coordinate; otherwise the built-in table is read at
  the name as given. Names with the same lower-cased form resolve to the same coordinate
  when the caller's table has a row for them. The result is null exactly when neither
  table has the team.
\<close>

theorem resolve_team_order:
  "(override_rows team ti \<noteq> [] \<longrightarrow>
      resolve_team_coords team ti =
        Some (latitude (hd (override_rows team ti)), longitude (hd (override_rows team ti)))) \<and>
   (override_rows team ti = [] \<longrightarrow> resolve_team_coords team ti = map_of TEAM_COORDINATES team) \<and>
   (lower team' = lower team \<and> override_rows team ti \<noteq> [] \<longrightarrow>
      resolve_team_coords team' ti = resolve_team_coords team ti) \<and>
   (resolve_team_coords team ti = None \<longleftrightarrow>
      override_rows team ti = [] \<and> team \<notin> fst ` set TEAM_COORDINATES)"
proof -
  have same: "override_rows team' ti = override_rows team ti" if "lower team' = lower team"
    using that by (simp add: override_rows_def split: option.split)
  show ?thesis
    using same
    by (auto simp: resolve_team_coords_def map_of_eq_None_iff split: list.splits)
qed

text \<open>
  Instances of the amended C4: a caller's table with one row for \<^verbatim>\<open>"flamengo"\<close>, read
  at two spellings of that name, at a name of the built-in table and at a name of
  neither table.
\<close>

theorem resolve_team_order_witness:
  "resolve_team_coords ''FLAMENGO''
     (Some [\<lparr>nome_time = ''flamengo'', latitude = 1, longitude = 2\<rparr>]) = Some (1, 2) \<and>
   resolve_team_coords ''Flamengo''
     (Some [\<lparr>nome_time = ''flamengo'', latitude = 1, longitude = 2\<rparr>]) = Some (1, 2) \<and>
   resolve_team_coords ''Santos''
     (Some [\<lparr>nome_time = ''flamengo'', latitude = 1, longitude = 2\<rparr>]) =
       Some (-23.9608, -46.3339) \<and>
   resolve_team_coords ''santos''
     (Some [\<lparr>nome_time = ''flamengo'', latitude = 1, longitude = 2\<rparr>]) = None"
proof -
  let ?ti = "Some [\<lparr>nome_time = ''flamengo'', latitude = 1, longitude = 2\<rparr>]"
  note str = lower_def lower_char_def upper_letters_def lower_letters_def
  have a: "override_rows ''FLAMENGO'' ?ti = [\<lparr>nome_time = ''flamengo'', latitude = 1, longitude = 2\<rparr>]"
    by (simp add: override_rows_def str)
  have b: "lower ''Flamengo'' = lower ''FLAMENGO''"
    by (simp add: str)
  have c: "override_rows ''Santos'' ?ti = []" "override_rows ''santos'' ?ti = []"
    by (simp_all add: override_rows_def str)
  have d: "map_of TEAM_COORDINATES ''Santos'' = Some (-23.9608, -46.3339)"
    by (simp add: TEAM_COORDINATES_def)
  have e: "''santos'' \<notin> fst ` set TEAM_COORDINATES"
    by (simp add: TEAM_COORDINATES_def)
  show ?thesis
    using resolve_team_order [of "''FLAMENGO''" ?ti "''Flamengo''"]
      resolve_team_order [of "''Santos''" ?ti "''Santos''"]
      resolve_team_order [of "''santos''" ?ti "''santos''"] a b c d e
    by (simp add: map_of_eq_None_iff)
qed




section \<open>Properties of the rest days\<close>


lemma length_rest_days_loop: "length (rest_days_loop lp rows) = length rows"
  by (induction rows arbitrary: lp) (simp_all add: Let_def)

lemma map_fst_rest_days_loop: "map fst (rest_days_loop lp rows) = rows"
  by (induction rows arbitrary: lp) (simp_all add: Let_def)







section \<open>Properties of the key players\<close>

lemma foldl_append_id:
  "foldl (\<lambda>tm row. append_id (append_id tm (time_casa row) (id_partida row))
                      (time_fora row) (id_partida row)) tm rows team =
     tm team @ concat (map (\<lambda>row. (if time_casa row = team then [id_partida row] else []) @
                                  (if time_fora row = team then [id_partida row] else [])) rows)"
  by (induction rows arbitrary: tm) (auto simp: append_id_def)

lemma team_matches_sides:
  "team_matches df team =
     concat (map (\<lambda>row. (if time_casa row = team then [id_partida row] else []) @
                        (if time_fora row = team then [id_partida row] else []))
       (sort_key data df))"
  by (simp add: team_matches_def foldl_append_id)

lemma sides_plays:
  "\<forall>m \<in> set rows. time_casa m \<noteq> time_fora m \<Longrightarrow>
     concat (map (\<lambda>row. (if time_casa row = team then [id_partida row] else []) @
                        (if time_fora row = team then [id_partida row] else [])) rows) =
       map id_partida (filter (plays team) rows)"
  by (induction rows) (auto simp: plays_def)

lemma match_date_map_distinct:
  assumes "distinct (map id_partida df)" and "m \<in> set df"
  shows "match_date_map df (id_partida m) = Some (data m)"
proof -
  let ?xys = "rev (map (\<lambda>row. (id_partida row, data row)) df)"
  have "distinct (map fst ?xys)"
    using assms(1) by (simp add: rev_map [symmetric] comp_def)
  moreover have "(id_partida m, data m) \<in> set ?xys"
    using assms(2) by auto
  ultimately show ?thesis
    unfolding match_date_map_def by (rule map_of_is_SomeI)
qed

lemma history_ids_filter:
  assumes "distinct (map id_partida df)" and "row \<in> set df" and "set rows \<subseteq> set df"
  shows "filter (\<lambda>mid. dated_before (match_date_map df mid) (match_date_map df (id_partida row)))
           (concat (map (\<lambda>r. (if time_casa r = team then [id_partida r] else []) @
                             (if time_fora r = team then [id_partida r] else [])) rows)) =
         concat (map (\<lambda>r. (if time_casa r = team then [id_partida r] else []) @
                          (if time_fora r = team then [id_partida r] else []))
           (filter (\<lambda>m. data m < data row) rows))"
  using assms(3)
proof (induction rows)
  case Nil
  then show ?case by simp
next
  case (Cons r rows)
  then have "r \<in> set df" by simp
  then have "dated_before (match_date_map df (id_partida r)) (match_date_map df (id_partida row))
      \<longleftrightarrow> data r < data row"
    using assms(1,2) by (simp add: match_date_map_distinct dated_before_def)
  with Cons show ?case by simp
qed

lemma py_last_pos: "0 < w \<Longrightarrow> py_last w xs = drop (length xs - nat w) xs"
  by (simp add: py_last_def)

lemma py_head_nonneg: "0 \<le> n \<Longrightarrow> py_head n xs = take (nat n) xs"
  by (simp add: py_head_def)

lemma recent_rows:
  assumes "distinct (map id_partida df)" and "\<forall>m \<in> set df. time_casa m \<noteq> time_fora m"
    and "row \<in> set df" and "0 < window"
  shows "py_last window
           (filter (\<lambda>mid. dated_before (match_date_map df mid) (match_date_map df (id_partida row)))
              (team_matches df team)) =
         map id_partida (recent_matches (nat window) df team row)"
proof -
  let ?s = "sort_key data df"
  have "filter (\<lambda>mid. dated_before (match_date_map df mid) (match_date_map df (id_partida row)))
          (team_matches df team) =
        concat (map (\<lambda>r. (if time_casa r = team then [id_partida r] else []) @
                          (if time_fora r = team then [id_partida r] else []))
           (filter (\<lambda>m. data m < data row) ?s))"
    unfolding team_matches_sides using assms(1,3) by (intro history_ids_filter) simp_all
  also have "\<dots> = map id_partida (filter (plays team) (filter (\<lambda>m. data m < data row) ?s))"
    using assms(2) by (intro sides_plays) simp
  also have "\<dots> = map id_partida (prior_matches df team row)"
    by (simp add: prior_matches_def conj_commute)
  finally show ?thesis
    using assms(4) by (simp add: py_last_pos recent_matches_def drop_map)
qed

lemma key_players_of_recent:
  assumes "distinct (map id_partida df)" and "\<forall>m \<in> set df. time_casa m \<noteq> time_fora m"
    and "row \<in> set df" and "0 < window"
  shows "key_players_of df ps window top_n row team =
     (if recent_stats (nat window) df ps team row = [] then []
      else py_head top_n (sort_key (\<lambda>g. (- kp_score g, - kp_gols g))
             (group_players (recent_stats (nat window) df ps team row))))"
  unfolding key_players_of_def Let_def recent_rows [OF assms] recent_stats_def
  by simp

lemma group_players_entry:
  assumes "e \<in> set (group_players recent)"
  shows "kp_gols e = sum_list (map p_gols (filter (\<lambda>p. p_id_jogador p = kp_id_jogador e) recent))"
    and "kp_assistencias e =
           sum_list (map p_assistencias (filter (\<lambda>p. p_id_jogador p = kp_id_jogador e) recent))"
    and "kp_score e = kp_gols e + kp_assistencias e"
    and "kp_id_jogador e \<in> p_id_jogador ` set recent"
  using assms by (auto simp: group_players_def Let_def)

lemma desc_key:
  "(- kp_score a, - kp_gols a) \<le> (- kp_score b, - kp_gols b) \<longleftrightarrow>
     (kp_score b, kp_gols b) \<le> (kp_score a, kp_gols a)"
  by auto

lemma sorted_desc:
  "sorted_wrt (\<lambda>a b. (kp_score b, kp_gols b) \<le> (kp_score a, kp_gols a))
     (take n (sort_key (\<lambda>g. (- kp_score g, - kp_gols g)) gs))"
proof -
  have "sorted (map (\<lambda>g. (- kp_score g, - kp_gols g)) (sort_key (\<lambda>g. (- kp_score g, - kp_gols g)) gs))"
    by (rule sorted_sort_key)
  then have "sorted_wrt (\<lambda>a b. (kp_score b, kp_gols b) \<le> (kp_score a, kp_gols a))
      (sort_key (\<lambda>g. (- kp_score g, - kp_gols g)) gs)"
    unfolding sorted_map desc_key .
  then show ?thesis
    by (rule sorted_wrt_take)
qed


lemma map_of_rev_distinct:
  assumes "distinct (map id_partida df)" and "m \<in> set df"
  shows "map_of (rev (map (\<lambda>row. (id_partida row, f row)) df)) (id_partida m) = Some (f m)"
proof -
  let ?xys = "rev (map (\<lambda>row. (id_partida row, f row)) df)"
  have "distinct (map fst ?xys)"
    using assms(1) by (simp add: rev_map [symmetric] comp_def)
  moreover have "(id_partida m, f m) \<in> set ?xys"
    using assms(2) by auto
  ultimately show ?thesis
    by (rule map_of_is_SomeI)
qed

lemma compute_key_players_nth:
  assumes "distinct (map id_partida df)" and "i < length df"
  shows "compute_key_players df ps window top_n ! i =
     (df ! i, Some (key_players_of df ps window top_n (df ! i) (time_casa (df ! i))),
      Some (key_players_of df ps window top_n (df ! i) (time_fora (df ! i))))"
proof -
  have "df ! i \<in> set df"
    using assms(2) by simp
  then show ?thesis
    using assms by (simp add: compute_key_players_def Let_def map_of_rev_distinct)
qed

lemma recent_stats_no_prior:
  "prior_matches df team row = [] \<Longrightarrow> recent_stats window df ps team row = []"
  by (simp add: recent_stats_def recent_matches_def)

text \<open>
  Claim C6. Let the match ids be unique, let no team play itself, and let \<open>window\<close> be
  positive and \<open>top_n\<close> not negative. For every row and side of the result, the list of key
  players has at most \<open>top_n\<close> entries and is sorted by score and then goals, both
  descending. The goals and assists of an entry are the sums over the rows of the player
  statistics of that player, for the team, in the most recent \<open>window\<close> matches of the team
  dated before the row; the score is their sum. The list is empty when the team has no
  earlier match or those matches have no row for the team.
\<close>

theorem key_players_ranked:
  assumes "distinct (map id_partida df)"
    and "\<forall>m \<in> set df. time_casa m \<noteq> time_fora m"
    and "0 < window" and "0 \<le> top_n" and "i < length df"
    and "(team, col) \<in>
           {(time_casa (df ! i), fst (snd (compute_key_players df ps window top_n ! i))),
            (time_fora (df ! i), snd (snd (compute_key_players df ps window top_n ! i)))}"
  shows "fst (compute_key_players df ps window top_n ! i) = df ! i \<and>
    (\<exists>ks. col = Some ks \<and> length ks \<le> nat top_n \<and>
       sorted_wrt (\<lambda>a b. (kp_score b, kp_gols b) \<le> (kp_score a, kp_gols a)) ks \<and>
       (\<forall>e \<in> set ks.
          kp_gols e = sum_list (map p_gols (filter (\<lambda>p. p_id_jogador p = kp_id_jogador e)
            (recent_stats (nat window) df ps team (df ! i)))) \<and>
          kp_assistencias e = sum_list (map p_assistencias
            (filter (\<lambda>p. p_id_jogador p = kp_id_jogador e)
              (recent_stats (nat window) df ps team (df ! i)))) \<and>
          kp_score e = kp_gols e + kp_assistencias e) \<and>
       (prior_matches df team (df ! i) = [] \<or>
        recent_stats (nat window) df ps team (df ! i) = [] \<longrightarrow> ks = []))"
proof -
  let ?row = "df ! i"
  let ?rs = "recent_stats (nat window) df ps team ?row"
  let ?ks = "key_players_of df ps window top_n ?row team"
  have row: "?row \<in> set df"
    using assms(5) by simp
  have nth: "compute_key_players df ps window top_n ! i =
     (?row, Some (key_players_of df ps window top_n ?row (time_casa ?row)),
      Some (key_players_of df ps window top_n ?row (time_fora ?row)))"
    using assms(1,5) by (rule compute_key_players_nth)
  have col: "col = Some ?ks"
    using assms(6) nth by auto
  have ks: "?ks = (if ?rs = [] then []
      else take (nat top_n) (sort_key (\<lambda>g. (- kp_score g, - kp_gols g)) (group_players ?rs)))"
    using key_players_of_recent [OF assms(1,2) row assms(3)] assms(4)
    by (simp add: py_head_nonneg)
  have len: "length ?ks \<le> nat top_n"
    by (simp add: ks)
  have srt: "sorted_wrt (\<lambda>a b. (kp_score b, kp_gols b) \<le> (kp_score a, kp_gols a)) ?ks"
    by (simp add: ks sorted_desc [simplified])
  have sub: "set ?ks \<subseteq> set (group_players ?rs)"
  proof (cases "?rs = []")
    case True
    then show ?thesis by (simp add: ks)
  next
    case False
    have "set (take (nat top_n) (sort_key (\<lambda>g. (- kp_score g, - kp_gols g)) (group_players ?rs)))
        \<subseteq> set (sort_key (\<lambda>g. (- kp_score g, - kp_gols g)) (group_players ?rs))"
      by (rule set_take_subset)
    with False show ?thesis by (simp add: ks)
  qed
  have ent: "kp_gols e = sum_list (map p_gols (filter (\<lambda>p. p_id_jogador p = kp_id_jogador e) ?rs)) \<and>
      kp_assistencias e = sum_list (map p_assistencias
        (filter (\<lambda>p. p_id_jogador p = kp_id_jogador e) ?rs)) \<and>
      kp_score e = kp_gols e + kp_assistencias e" if "e \<in> set ?ks" for e
  proof -
    from that sub have "e \<in> set (group_players ?rs)" by blast
    then show ?thesis
      using group_players_entry [of e ?rs] by simp
  qed
  have emp: "?ks = []" if "prior_matches df team ?row = [] \<or> ?rs = []"
    using that recent_stats_no_prior [of df team ?row "nat window" ps] by (auto simp: ks)
  show ?thesis
    using nth col len srt ent emp by simp
qed


text \<open>
  An instance of C6: Flamengo plays away in its second match; of its two players of the
  first match the one with the higher score is kept by \<open>top_n = 1\<close>.
\<close>

theorem key_players_ranked_witness:
  "compute_key_players
     [\<lparr>id_partida = 1, data = 0, rodada = None, time_casa = ''Flamengo'',
        time_fora = ''Vasco'', gols_casa = Some 2, gols_fora = Some 0, xG_casa = None,
        xG_fora = None, cidade_jogo = None\<rparr>,
      \<lparr>id_partida = 2, data = 604800, rodada = None, time_casa = ''Santos'',
        time_fora = ''Flamengo'', gols_casa = Some 1, gols_fora = Some 1, xG_casa = None,
        xG_fora = None, cidade_jogo = None\<rparr>]
     [\<lparr>p_id_partida = 1, p_id_jogador = 9, p_time = ''Flamengo'', p_gols = 1,
        p_assistencias = 0\<rparr>,
      \<lparr>p_id_partida = 1, p_id_jogador = 10, p_time = ''Flamengo'', p_gols = 1,
        p_assistencias = 1\<rparr>,
      \<lparr>p_id_partida = 1, p_id_jogador = 7, p_time = ''Vasco'', p_gols = 0,
        p_assistencias = 0\<rparr>] 5 1 ! 1 =
     (\<lparr>id_partida = 2, data = 604800, rodada = None, time_casa = ''Santos'',
        time_fora = ''Flamengo'', gols_casa = Some 1, gols_fora = Some 1, xG_casa = None,
        xG_fora = None, cidade_jogo = None\<rparr>,
      Some [],
      Some [\<lparr>kp_id_jogador = 10, kp_gols = 1, kp_assistencias = 1, kp_score = 2\<rparr>])"
proof -
  let ?m1 = "\<lparr>id_partida = 1, data = 0, rodada = None, time_casa = ''Flamengo'',
        time_fora = ''Vasco'', gols_casa = Some 2, gols_fora = Some 0, xG_casa = None,
        xG_fora = None, cidade_jogo = None\<rparr>"
  let ?m2 = "\<lparr>id_partida = 2, data = 604800, rodada = None, time_casa = ''Santos'',
        time_fora = ''Flamengo'', gols_casa = Some 1, gols_fora = Some 1, xG_casa = None,
        xG_fora = None, cidade_jogo = None\<rparr>"
  let ?p9 = "\<lparr>p_id_partida = 1, p_id_jogador = 9, p_time = ''Flamengo'', p_gols = 1,
        p_assistencias = 0\<rparr>"
  let ?p10 = "\<lparr>p_id_partida = 1, p_id_jogador = 10, p_time = ''Flamengo'', p_gols = 1,
        p_assistencias = 1\<rparr>"
  let ?p7 = "\<lparr>p_id_partida = 1, p_id_jogador = 7, p_time = ''Vasco'', p_gols = 0,
        p_assistencias = 0\<rparr>"
  let ?df = "[?m1, ?m2]"
  let ?ps = "[?p9, ?p10, ?p7]"
  let ?out = "compute_key_players ?df ?ps 5 1 ! 1"
  have d: "distinct (map id_partida ?df)" "\<forall>m \<in> set ?df. time_casa m \<noteq> time_fora m"
    "(0::int) < 5" "(0::int) \<le> 1" "1 < length ?df"
    by simp_all
  have out: "?out = (?m2, Some [],
      Some [\<lparr>kp_id_jogador = 10, kp_gols = 1, kp_assistencias = 1, kp_score = 2\<rparr>])"
    by (simp add: compute_key_players_def key_players_of_def match_date_map_def
        team_matches_def append_id_def dated_before_def py_last_def py_head_def
        group_players_def Let_def)
  have "fst ?out = ?df ! 1 \<and> (\<exists>ks. snd (snd ?out) = Some ks \<and> length ks \<le> nat 1)"
    using key_players_ranked [OF d, of "''Flamengo''" "snd (snd ?out)" ?ps] by auto
  then show ?thesis
    using out by simp
qed

end
